theory Spec2Isabelle
  imports Complex_Main "HOL-Library.Sublist" "HOL-Library.Multiset"
begin

section \<open>Strings and numbers of the host language\<close>

text \<open>
  Strings are lists of code units; every definition below is exact on ASCII text. Case
  mapping and white space beyond ASCII are left as they are (the identity, and not white
  space).
\<close>

definition lower_char :: "char \<Rightarrow> char" where
  "lower_char c =
     (case map_of (zip ''ABCDEFGHIJKLMNOPQRSTUVWXYZ'' ''abcdefghijklmnopqrstuvwxyz'') c of
        Some d \<Rightarrow> d
      | None \<Rightarrow> c)"

text \<open>\<^verbatim>\<open>String.prototype.toLowerCase\<close>.\<close>

definition toLowerCase :: "string \<Rightarrow> string" where
  "toLowerCase s = map lower_char s"

text \<open>The white space that \<^verbatim>\<open>trim\<close>, \<^verbatim>\<open>parseInt\<close> and \<^verbatim>\<open>\s\<close> skip: TAB, LF, VT, FF, CR, SPACE.\<close>

definition is_space :: "char \<Rightarrow> bool" where
  "is_space c = (c \<in> set [CHR 0x09, CHR 0x0A, CHR 0x0B, CHR 0x0C, CHR 0x0D, CHR '' ''])"

text \<open>\<^verbatim>\<open>String.prototype.trim\<close>.\<close>

definition trim :: "string \<Rightarrow> string" where
  "trim s = rev (dropWhile is_space (rev (dropWhile is_space s)))"

text \<open>\<^verbatim>\<open>Array.prototype.join\<close> on an array of strings.\<close>

fun join :: "string \<Rightarrow> string list \<Rightarrow> string" where
  "join sep [] = []"
| "join sep [x] = x"
| "join sep (x # y # ys) = x @ sep @ join sep (y # ys)"

text \<open>
  \<^verbatim>\<open>String.prototype.includes\<close>: the needle is looked for at every position of the
  haystack, from the left.
\<close>

fun str_includes :: "string \<Rightarrow> string \<Rightarrow> bool" where
  "str_includes [] q = (q = [])"
| "str_includes (c # cs) q = (prefix q (c # cs) \<or> str_includes cs q)"

text \<open>
  A number that \<^verbatim>\<open>parseInt\<close> can return: \<^verbatim>\<open>NaN\<close> or an integer. (Integers are exact
  here; the rounding of doubles beyond \<open>2^53\<close> is not modelled.)
\<close>

datatype number = NaN | Num int

text \<open>The value of a digit in \<^verbatim>\<open>parseInt\<close>: \<open>0-9\<close>, then \<open>a-z\<close> and \<open>A-Z\<close> for 10 to 35.\<close>

definition digit_value :: "char \<Rightarrow> nat option" where
  "digit_value c =
     (case map_of (zip ''0123456789abcdefghijklmnopqrstuvwxyz'' [0 ..< 36]) c of
        Some d \<Rightarrow> Some d
      | None \<Rightarrow> map_of (zip ''ABCDEFGHIJKLMNOPQRSTUVWXYZ'' [10 ..< 36]) c)"

definition is_digit :: "nat \<Rightarrow> char \<Rightarrow> bool" where
  "is_digit radix c = (case digit_value c of Some d \<Rightarrow> d < radix | None \<Rightarrow> False)"

fun digits_value :: "nat \<Rightarrow> nat \<Rightarrow> string \<Rightarrow> nat" where
  "digits_value radix acc [] = acc"
| "digits_value radix acc (c # cs) =
     digits_value radix (acc * radix + (case digit_value c of Some d \<Rightarrow> d | None \<Rightarrow> 0)) cs"

text \<open>
  \<^verbatim>\<open>parseInt(s, radix)\<close> for the two ways the scripts call it: radix 10, and no radix
  (written 0 here), where a \<^verbatim>\<open>0x\<close> prefix selects radix 16. Leading white space is
  skipped, one sign is read, then the longest run of digits; no digit gives \<^verbatim>\<open>NaN\<close>.
\<close>

definition parseInt :: "string \<Rightarrow> nat \<Rightarrow> number" where
  "parseInt s radix =
     (let s1 = dropWhile is_space s;
          neg = (case s1 of c # _ \<Rightarrow> c = CHR ''-'' | [] \<Rightarrow> False);
          s2 = (case s1 of c # r \<Rightarrow> if c = CHR ''+'' \<or> c = CHR ''-'' then r else s1 | [] \<Rightarrow> s1);
          hex = (radix = 0 \<and> (take 2 s2 = ''0x'' \<or> take 2 s2 = ''0X''));
          r = (if hex then 16 else if radix = 0 then 10 else radix);
          s3 = (if hex then drop 2 s2 else s2);
          ds = takeWhile (is_digit r) s3
      in if ds = [] then NaN
         else Num ((if neg then - 1 else 1) * int (digits_value r 0 ds)))"

text \<open>\<^verbatim>\<open>Math.max(1, x)\<close> and \<^verbatim>\<open>Math.min(x, n)\<close>: \<^verbatim>\<open>NaN\<close> in gives \<^verbatim>\<open>NaN\<close> out.\<close>

fun max_1 :: "number \<Rightarrow> number" where
  "max_1 NaN = NaN"
| "max_1 (Num n) = Num (max 1 n)"

fun min_with :: "number \<Rightarrow> int \<Rightarrow> number" where
  "min_with NaN n = NaN"
| "min_with (Num p) n = Num (min p n)"

text \<open>\<^verbatim>\<open>x > 1\<close> and \<^verbatim>\<open>x < n\<close>: every comparison with \<^verbatim>\<open>NaN\<close> is false.\<close>

fun gt_1 :: "number \<Rightarrow> bool" where
  "gt_1 NaN = False"
| "gt_1 (Num n) = (1 < n)"

text \<open>Decimal digits of a natural number, and \<^verbatim>\<open>String(x)\<close> of a number.\<close>

fun digits_of :: "nat \<Rightarrow> string" where
  "digits_of n =
     (if n < 10 then [''0123456789'' ! n]
      else digits_of (n div 10) @ [''0123456789'' ! (n mod 10)])"

declare digits_of.simps [simp del]

fun to_String :: "number \<Rightarrow> string" where
  "to_String NaN = ''NaN''"
| "to_String (Num n) = (if n < 0 then CHR ''-'' # digits_of (nat (- n)) else digits_of (nat n))"

text \<open>
  \<^verbatim>\<open>Array.prototype.slice(start, end)\<close>: an index that is \<^verbatim>\<open>NaN\<close> counts as 0, a
  negative one counts from the end, and both are clipped to the array.
\<close>

definition relative_index :: "nat \<Rightarrow> number \<Rightarrow> nat" where
  "relative_index len x =
     (case x of
        NaN \<Rightarrow> 0
      | Num i \<Rightarrow> if i < 0 then nat (max (int len + i) 0) else min (nat i) len)"

definition slice :: "'a list \<Rightarrow> number \<Rightarrow> number \<Rightarrow> 'a list" where
  "slice xs start fin =
     (let k = relative_index (length xs) start;
          e = relative_index (length xs) fin
      in take (e - k) (drop k xs))"

section \<open>The catalog browser\<close>

subsection \<open>Catalog items and view state\<close>

text \<open>
  A record of \<^verbatim>\<open>games.json\<close>. A field that the script reads with \<^verbatim>\<open>?.\<close> or
  \<^verbatim>\<open>|| default\<close> may be absent. \<open>created_at\<close> is the time value, in milliseconds, of
  \<^verbatim>\<open>new Date(game.created_at)\<close>. The numeric fields are exact rationals: the rounding
  of doubles is not modelled.
\<close>

record game =
  slug :: string
  title :: string
  summary :: "string option"
  author :: "string option"
  game_categories :: "string list option"
  game_mechanisms :: "string list option"
  game_difficulty :: "string option"
  languages :: "string list option"
  created_at :: int
  pv7_norm :: "rat option"
  guide_clicks7_norm :: "rat option"
  recency :: "rat option"
  rating :: "rat option"

record filter_sets =
  categories :: "string list"
  mechanisms :: "string list"
  difficulty :: "string list"
  language :: "string list"

record view_state =
  search :: string
  sort_name :: string
  page :: number
  filters :: filter_sets

subsection \<open>Facet filters and search\<close>

text \<open>\<^verbatim>\<open>array?.includes(v)\<close>: an absent array gives \<^verbatim>\<open>undefined\<close>, which is falsy.\<close>

definition opt_includes :: "string list option \<Rightarrow> string \<Rightarrow> bool" where
  "opt_includes xs v = (case xs of None \<Rightarrow> False | Some ys \<Rightarrow> v \<in> set ys)"

definition matchesFilters :: "game \<Rightarrow> filter_sets \<Rightarrow> bool" where
  "matchesFilters g f =
     (if categories f \<noteq> [] \<and> \<not> list_ex (\<lambda>cat. opt_includes (game_categories g) cat) (categories f)
      then False
      else if mechanisms f \<noteq> [] \<and> \<not> list_ex (\<lambda>mech. opt_includes (game_mechanisms g) mech) (mechanisms f)
      then False
      else if difficulty f \<noteq> [] \<and> \<not> (case game_difficulty g of None \<Rightarrow> False | Some d \<Rightarrow> d \<in> set (difficulty f))
      then False
      else if language f \<noteq> [] \<and> \<not> list_ex (\<lambda>lang. opt_includes (languages g) lang) (language f)
      then False
      else True)"

text \<open>An absent string in an array is joined as the empty string.\<close>

definition or_empty :: "string option \<Rightarrow> string" where
  "or_empty s = (case s of None \<Rightarrow> [] | Some t \<Rightarrow> t)"

definition or_nil :: "string list option \<Rightarrow> string list" where
  "or_nil xs = (case xs of None \<Rightarrow> [] | Some ys \<Rightarrow> ys)"

definition haystack :: "game \<Rightarrow> string" where
  "haystack g =
     toLowerCase (join '' ''
       ([title g, or_empty (summary g), or_empty (author g)]
        @ or_nil (game_categories g) @ or_nil (game_mechanisms g)))"

definition matchesSearch :: "game \<Rightarrow> string \<Rightarrow> bool" where
  "matchesSearch g query =
     (if query = [] then True else str_includes (haystack g) (toLowerCase query))"

subsection \<open>The query string\<close>

text \<open>
  \<^verbatim>\<open>URLSearchParams\<close> is a list of name-value pairs. Its text form is the
  \<^verbatim>\<open>application/x-www-form-urlencoded\<close> format of the URL standard, on code units.
\<close>

type_synonym params = "(string \<times> string) list"

definition get_param :: "params \<Rightarrow> string \<Rightarrow> string option" where
  "get_param ps name = map_of ps name"

definition getAll :: "params \<Rightarrow> string \<Rightarrow> string list" where
  "getAll ps name = map snd (filter (\<lambda>p. fst p = name) ps)"

definition append_param :: "params \<Rightarrow> string \<Rightarrow> string \<Rightarrow> params" where
  "append_param ps name v = ps @ [(name, v)]"

fun replace_first :: "params \<Rightarrow> string \<Rightarrow> string \<Rightarrow> params" where
  "replace_first [] name v = []"
| "replace_first (p # ps) name v =
     (if fst p = name then (name, v) # filter (\<lambda>q. fst q \<noteq> name) ps
      else p # replace_first ps name v)"

text \<open>\<^verbatim>\<open>set\<close>: the first pair of that name takes the value and the others go; no pair, append.\<close>

definition set_param :: "params \<Rightarrow> string \<Rightarrow> string \<Rightarrow> params" where
  "set_param ps name v =
     (if name \<in> set (map fst ps) then replace_first ps name v else append_param ps name v)"

definition hex_char :: "nat \<Rightarrow> char" where
  "hex_char n = ''0123456789ABCDEF'' ! n"

definition encode_unit :: "char \<Rightarrow> string" where
  "encode_unit c =
     (if c = CHR '' '' then ''+''
      else if c \<in> set ''*-._0123456789ABCDEFGHIJKLMNOPQRSTUVWXYZabcdefghijklmnopqrstuvwxyz''
      then [c]
      else [CHR ''%'', hex_char ((of_char c :: nat) div 16), hex_char ((of_char c :: nat) mod 16)])"

definition encode_component :: "string \<Rightarrow> string" where
  "encode_component s = concat (map encode_unit s)"

text \<open>\<^verbatim>\<open>params.toString()\<close>.\<close>

definition serialize :: "params \<Rightarrow> string" where
  "serialize ps =
     join ''&'' (map (\<lambda>p. encode_component (fst p) @ ''='' @ encode_component (snd p)) ps)"

fun percent_decode :: "string \<Rightarrow> string" where
  "percent_decode (c # h # l # cs) =
     (if c = CHR ''%'' \<and> is_digit 16 h \<and> is_digit 16 l
      then char_of (digits_value 16 0 [h, l]) # percent_decode cs
      else c # percent_decode (h # l # cs))"
| "percent_decode cs = cs"

definition decode_component :: "string \<Rightarrow> string" where
  "decode_component s = percent_decode (map (\<lambda>c. if c = CHR ''+'' then CHR '' '' else c) s)"

fun split_on :: "char \<Rightarrow> string \<Rightarrow> string list" where
  "split_on d [] = [[]]"
| "split_on d (c # cs) =
     (if c = d then [] # split_on d cs
      else (case split_on d cs of x # xs \<Rightarrow> (c # x) # xs | [] \<Rightarrow> [[c]]))"

text \<open>\<^verbatim>\<open>new URLSearchParams(text)\<close>: one leading \<^verbatim>\<open>?\<close> is dropped, empty sequences are skipped.\<close>

definition URLSearchParams :: "string \<Rightarrow> params" where
  "URLSearchParams init =
     (let body = (case init of c # cs \<Rightarrow> if c = CHR ''?'' then cs else init | [] \<Rightarrow> init)
      in map (\<lambda>seq. (decode_component (takeWhile (\<lambda>c. c \<noteq> CHR ''='') seq),
                      decode_component (drop 1 (dropWhile (\<lambda>c. c \<noteq> CHR ''='') seq))))
           (filter (\<lambda>seq. seq \<noteq> []) (split_on CHR ''&'' body)))"

text \<open>\<^verbatim>\<open>x || d\<close> on a string that may be \<^verbatim>\<open>null\<close>: \<^verbatim>\<open>null\<close> and the empty string give \<open>d\<close>.\<close>

definition or_default :: "string option \<Rightarrow> string \<Rightarrow> string" where
  "or_default x d = (case x of None \<Rightarrow> d | Some s \<Rightarrow> if s = [] then d else s)"

text \<open>\<open>parseQuery\<close> reads \<^verbatim>\<open>window.location.search\<close>, its argument here.\<close>

definition parseQuery :: "string \<Rightarrow> view_state" where
  "parseQuery location_search =
     (let params = URLSearchParams location_search
      in \<lparr> search = or_default (get_param params ''search'') [],
           sort_name = or_default (get_param params ''sort'') ''trending'',
           page = max_1 (parseInt (or_default (get_param params ''page'') ''1'') 10),
           filters = \<lparr> categories = getAll params ''category'',
                       mechanisms = getAll params ''mechanism'',
                       difficulty = getAll params ''difficulty'',
                       language = getAll params ''language'' \<rparr> \<rparr>)"

text \<open>
  \<open>updateQuery\<close> returns the query part of the address it installs with
  \<^verbatim>\<open>history.replaceState\<close> (empty, or \<^verbatim>\<open>?\<close> and the parameters); the path is unchanged.
  \<^verbatim>\<open>Object.entries(state.filters)\<close> lists the four facets in the order \<open>parseQuery\<close>
  created them.
\<close>

definition updateQuery :: "view_state \<Rightarrow> string" where
  "updateQuery state =
     (let p0 = [];
          p1 = (if search state \<noteq> [] then set_param p0 ''search'' (search state) else p0);
          p2 = (if sort_name state \<noteq> [] \<and> sort_name state \<noteq> ''trending''
                then set_param p1 ''sort'' (sort_name state) else p1);
          p3 = foldl (\<lambda>ps entry. foldl (\<lambda>qs v. append_param qs (fst entry) v) ps (snd entry)) p2
                 [(''category'', categories (filters state)),
                  (''mechanism'', mechanisms (filters state)),
                  (''difficulty'', difficulty (filters state)),
                  (''language'', language (filters state))];
          p4 = (if gt_1 (page state) then set_param p3 ''page'' (to_String (page state)) else p3)
      in if serialize p4 \<noteq> [] then CHR ''?'' # serialize p4 else [])"

subsection \<open>Sorting\<close>

text \<open>\<^verbatim>\<open>x || 0\<close> on a number that may be absent.\<close>

definition or_zero :: "rat option \<Rightarrow> rat" where
  "or_zero x = (case x of None \<Rightarrow> 0 | Some r \<Rightarrow> r)"

definition computeTrendingScore :: "game \<Rightarrow> rat" where
  "computeTrendingScore g =
     (7 / 10) * or_zero (pv7_norm g) + (2 / 10) * or_zero (guide_clicks7_norm g)
       + (1 / 10) * or_zero (recency g)"

text \<open>The four comparators of the object \<^verbatim>\<open>sorters\<close>, under its keys
  \<^verbatim>\<open>trending\<close>, \<^verbatim>\<open>new\<close>, \<^verbatim>\<open>most-rated\<close> and \<^verbatim>\<open>alpha\<close>.\<close>

datatype sorter = Trending | New | MostRated | Alpha

text \<open>
  A comparator returns a number whose sign orders its arguments. \<open>localeCompare\<close> is the
  host's \<^verbatim>\<open>String.prototype.localeCompare\<close>, a parameter.
\<close>

fun comparator :: "(string \<Rightarrow> string \<Rightarrow> int) \<Rightarrow> sorter \<Rightarrow> game \<Rightarrow> game \<Rightarrow> rat" where
  "comparator localeCompare Trending a b = computeTrendingScore b - computeTrendingScore a"
| "comparator localeCompare New a b = of_int (created_at b - created_at a)"
| "comparator localeCompare MostRated a b = or_zero (rating b) - or_zero (rating a)"
| "comparator localeCompare Alpha a b = of_int (localeCompare (title a) (title b))"

text \<open>
  \<^verbatim>\<open>sorters[key]\<close> finds one of the four comparators, or a property that every object
  inherits from \<^verbatim>\<open>Object.prototype\<close>, or nothing.
\<close>

datatype property = Own sorter | Inherited | Undefined

definition object_prototype_keys :: "string list" where
  "object_prototype_keys =
     [''constructor'', ''hasOwnProperty'', ''isPrototypeOf'', ''propertyIsEnumerable'',
      ''toLocaleString'', ''toString'', ''valueOf'', ''__proto__'', ''__defineGetter__'',
      ''__defineSetter__'', ''__lookupGetter__'', ''__lookupSetter__'']"

definition sorters :: "string \<Rightarrow> property" where
  "sorters key =
     (case map_of [(''trending'', Trending), (''new'', New), (''most-rated'', MostRated),
                   (''alpha'', Alpha)] key of
        Some s \<Rightarrow> Own s
      | None \<Rightarrow> if key \<in> set object_prototype_keys then Inherited else Undefined)"

text \<open>
  \<^verbatim>\<open>sorters[state.sort] || sorters.trending\<close>. An inherited property is truthy, so it is
  what \<^verbatim>\<open>sort\<close> receives; what the host does with it is not modelled, and the result is
  \<open>None\<close>.
\<close>

definition sorter_for :: "string \<Rightarrow> sorter option" where
  "sorter_for key =
     (case sorters key of Own s \<Rightarrow> Some s | Undefined \<Rightarrow> Some Trending | Inherited \<Rightarrow> None)"

text \<open>
  \<^verbatim>\<open>Array.prototype.sort(cmp)\<close> is stable: for a comparator that is a consistent order,
  every conforming implementation returns the list that insertion from the right builds,
  where an element goes before the first one it does not compare greater than.
\<close>

fun insert_by :: "('a \<Rightarrow> 'a \<Rightarrow> rat) \<Rightarrow> 'a \<Rightarrow> 'a list \<Rightarrow> 'a list" where
  "insert_by cmp x [] = [x]"
| "insert_by cmp x (y # ys) = (if cmp x y \<le> 0 then x # y # ys else y # insert_by cmp x ys)"

definition sort_with :: "('a \<Rightarrow> 'a \<Rightarrow> rat) \<Rightarrow> 'a list \<Rightarrow> 'a list" where
  "sort_with cmp xs = foldr (insert_by cmp) xs []"

subsection \<open>Rendering\<close>

text \<open>What \<open>render\<close> leaves behind: the state, the cards of the grid, the count shown, and
  the query part of the address.\<close>

record view =
  state :: view_state
  page_items :: "game list"
  total_count :: nat
  location_search :: string

text \<open>\<^verbatim>\<open>Math.max(1, Math.ceil(total / pageSize))\<close>, for a page size that is a positive integer.\<close>

definition totalPages :: "nat \<Rightarrow> nat \<Rightarrow> nat" where
  "totalPages n pageSize = max 1 (nat \<lceil>(of_nat n :: rat) / of_nat pageSize\<rceil>)"

text \<open>The two filters of \<open>render\<close>, then its sort, then the whole of it.\<close>

definition filtered_games :: "game list \<Rightarrow> view_state \<Rightarrow> game list" where
  "filtered_games games st =
     filter (\<lambda>g. matchesSearch g (search st)) (filter (\<lambda>g. matchesFilters g (filters st)) games)"

definition sorted_games ::
  "(string \<Rightarrow> string \<Rightarrow> int) \<Rightarrow> game list \<Rightarrow> view_state \<Rightarrow> game list option" where
  "sorted_games localeCompare games st =
     (case sorter_for (sort_name st) of
        None \<Rightarrow> None
      | Some s \<Rightarrow> Some (sort_with (comparator localeCompare s) (filtered_games games st)))"

text \<open>Arithmetic on a number: \<^verbatim>\<open>NaN\<close> stays \<^verbatim>\<open>NaN\<close>.\<close>

fun num_map :: "(int \<Rightarrow> int) \<Rightarrow> number \<Rightarrow> number" where
  "num_map f NaN = NaN"
| "num_map f (Num n) = Num (f n)"

definition render ::
  "(string \<Rightarrow> string \<Rightarrow> int) \<Rightarrow> game list \<Rightarrow> nat \<Rightarrow> view_state \<Rightarrow> view option" where
  "render localeCompare games pageSize st =
     (case sorted_games localeCompare games st of
        None \<Rightarrow> None
      | Some filtered \<Rightarrow>
          (let n = length filtered;
               st' = st\<lparr>page := min_with (page st) (int (totalPages n pageSize))\<rparr>;
               start = num_map (\<lambda>p. (p - 1) * int pageSize) (page st');
               pageItems = slice filtered start (num_map (\<lambda>s. s + int pageSize) start)
           in Some \<lparr> state = st', page_items = pageItems, total_count = n,
                     location_search = updateQuery st' \<rparr>))"

subsection \<open>Events\<close>

text \<open>
  The four listeners of \<open>initialiseGames\<close>: typing in the search box, choosing a sort,
  ticking or clearing a facet input (with its \<^verbatim>\<open>data-facet\<close> name and its value), and a
  click on a pagination link (with the \<^verbatim>\<open>page\<close> parameter of its address, if any).
\<close>

datatype event =
  SearchInput string
| SortChange string
| FacetChange string string bool
| PageClick "string option"

text \<open>A ticked value is pushed unless it is there; a cleared one is filtered out.\<close>

definition toggle :: "string list \<Rightarrow> string \<Rightarrow> bool \<Rightarrow> string list" where
  "toggle target v checked =
     (if checked then (if v \<in> set target then target else target @ [v])
      else filter (\<lambda>item. item \<noteq> v) target)"

definition facetChange :: "filter_sets \<Rightarrow> string \<Rightarrow> string \<Rightarrow> bool \<Rightarrow> filter_sets" where
  "facetChange f facet v checked =
     (if facet = ''categories'' then f\<lparr>categories := toggle (categories f) v checked\<rparr>
      else if facet = ''mechanisms'' then f\<lparr>mechanisms := toggle (mechanisms f) v checked\<rparr>
      else if facet = ''difficulty'' then f\<lparr>difficulty := toggle (difficulty f) v checked\<rparr>
      else if facet = ''language'' then f\<lparr>language := toggle (language f) v checked\<rparr>
      else f)"

definition facet_names :: "string list" where
  "facet_names = [''categories'', ''mechanisms'', ''difficulty'', ''language'']"

text \<open>
  One event on the current view. A facet name that is no key of \<^verbatim>\<open>state.filters\<close> leaves
  everything as it is; one that names an inherited property is not modelled (\<open>None\<close>).
\<close>

definition handle ::
  "(string \<Rightarrow> string \<Rightarrow> int) \<Rightarrow> game list \<Rightarrow> nat \<Rightarrow> view \<Rightarrow> event \<Rightarrow> view option" where
  "handle localeCompare games pageSize v e =
     (case e of
        SearchInput text \<Rightarrow>
          render localeCompare games pageSize ((state v)\<lparr>search := trim text, page := Num 1\<rparr>)
      | SortChange key \<Rightarrow>
          render localeCompare games pageSize ((state v)\<lparr>sort_name := key, page := Num 1\<rparr>)
      | FacetChange facet val checked \<Rightarrow>
          if facet \<in> set facet_names
          then render localeCompare games pageSize
                 ((state v)\<lparr>filters := facetChange (filters (state v)) facet val checked,
                            page := Num 1\<rparr>)
          else if facet \<in> set object_prototype_keys then None
          else Some v
      | PageClick p \<Rightarrow>
          render localeCompare games pageSize
            ((state v)\<lparr>page := max_1 (parseInt (or_default p ''1'') 10)\<rparr>))"

text \<open>\<open>initialiseGames\<close> once the catalog has been fetched: parse the address, render.\<close>

definition initialiseGames ::
  "(string \<Rightarrow> string \<Rightarrow> int) \<Rightarrow> game list \<Rightarrow> nat \<Rightarrow> string \<Rightarrow> view option" where
  "initialiseGames localeCompare games pageSize location =
     render localeCompare games pageSize (parseQuery location)"

text \<open>A run of events, one after the other; it stops with \<open>None\<close> at a step that is not
  modelled.\<close>

fun run ::
  "(string \<Rightarrow> string \<Rightarrow> int) \<Rightarrow> game list \<Rightarrow> nat \<Rightarrow> view option \<Rightarrow> event list \<Rightarrow> view option" where
  "run localeCompare games pageSize None es = None"
| "run localeCompare games pageSize (Some v) [] = Some v"
| "run localeCompare games pageSize (Some v) (e # es) =
     run localeCompare games pageSize (handle localeCompare games pageSize v e) es"

section \<open>Site search\<close>

text \<open>\<^verbatim>\<open>(value || "").toString().trim().toLowerCase()\<close>.\<close>

definition normaliseString :: "string option \<Rightarrow> string" where
  "normaliseString v = toLowerCase (trim (or_empty v))"


record index_item =
  item_type :: string
  item_title :: "string option"
  item_difficulty :: "string option"
  item_mechanisms :: "string list"
  item_categories :: "string list"
  item_author :: "string option"
  item_url :: string


definition item_haystack :: "index_item \<Rightarrow> string" where
  "item_haystack item =
     join '' '' (map normaliseString
       ([item_title item, item_author item]
        @ map Some (item_mechanisms item) @ map Some (item_categories item)))"

text \<open>The result panel after a submit: closed and empty, the line \<^verbatim>\<open>No matches found.\<close>, or
  one link per match.\<close>

datatype panel = Closed | NoMatches | Results "index_item list"

text \<open>The listener for \<^verbatim>\<open>submit\<close>, on a form that has its input and its panel.\<close>

definition submit :: "index_item list \<Rightarrow> string \<Rightarrow> panel" where
  "submit index input_value =
     (let query = normaliseString (Some input_value)
      in if query = [] then Closed
         else (let matches = take 6 (filter (\<lambda>item. str_includes (item_haystack item) query) index)
               in if matches = [] then NoMatches else Results matches))"


section \<open>Forum posts and reviews\<close>

text \<open>
  The records that the scripts keep as JSON in the browser's storage. A counter of the
  user record may be absent (\<^verbatim>\<open>user.points || 0\<close>).
\<close>

record user =
  user_id :: string
  username :: string
  points :: "int option"
  posts :: "int option"
  comments :: "int option"

record post =
  post_id :: string
  post_authorId :: string
  post_authorName :: string
  post_title :: string
  post_category :: string
  post_content :: string
  post_tags :: "string list"
  post_views :: int
  post_replies :: int
  post_likes :: int
  post_createdAt :: string

record review =
  review_id :: string
  review_gameSlug :: string
  review_userId :: string
  review_username :: string
  review_rating :: number
  review_text :: string
  review_helpful :: int
  review_createdAt :: string

text \<open>
  The storage the scripts use: \<^verbatim>\<open>blueroom_user\<close> in \<^verbatim>\<open>localStorage\<close> and in
  \<^verbatim>\<open>sessionStorage\<close>, \<^verbatim>\<open>blueroom_posts\<close>, and \<^verbatim>\<open>blueroom_reviews_\<close> followed by a game's
  slug. \<open>None\<close> is a key that is not there.
\<close>

record storage =
  local_user :: "user option"
  session_user :: "user option"
  local_posts :: "post list option"
  local_reviews :: "string \<Rightarrow> review list option"

text \<open>A toast: the message and its type.\<close>

type_synonym message = "string \<times> string"

text \<open>\<^verbatim>\<open>text.split(/\s+/)\<close>: the pieces between maximal runs of white space.\<close>

fun split_spaces :: "string \<Rightarrow> string list" where
  "split_spaces [] = [[]]"
| "split_spaces (c # cs) =
     (if is_space c
      then (case cs of d # _ \<Rightarrow> if is_space d then split_spaces cs else [] # split_spaces cs
            | [] \<Rightarrow> [] # split_spaces cs)
      else (case split_spaces cs of x # xs \<Rightarrow> (c # x) # xs | [] \<Rightarrow> [[c]]))"

definition int_or_zero :: "int option \<Rightarrow> int" where
  "int_or_zero x = (case x of None \<Rightarrow> 0 | Some n \<Rightarrow> n)"

text \<open>The write-back of the user record: to \<^verbatim>\<open>localStorage\<close> when the key is there, else to
  \<^verbatim>\<open>sessionStorage\<close>.\<close>

definition store_user :: "storage \<Rightarrow> user \<Rightarrow> storage" where
  "store_user s u =
     (if local_user s \<noteq> None then s\<lparr>local_user := Some u\<rparr> else s\<lparr>session_user := Some u\<rparr>)"

definition stored_user :: "storage \<Rightarrow> user option" where
  "stored_user s = (case local_user s of Some u \<Rightarrow> Some u | None \<Rightarrow> session_user s)"

text \<open>\<^verbatim>\<open>JSON.parse(localStorage.getItem(POSTS_KEY) || '[]')\<close>, and the same for the reviews of
  a game.\<close>

definition stored_posts :: "storage \<Rightarrow> post list" where
  "stored_posts s = (case local_posts s of None \<Rightarrow> [] | Some ps \<Rightarrow> ps)"

definition stored_reviews :: "string \<Rightarrow> storage \<Rightarrow> review list" where
  "stored_reviews gameSlug s = (case local_reviews s gameSlug of None \<Rightarrow> [] | Some rs \<Rightarrow> rs)"

text \<open>\<^verbatim>\<open>unshift\<close> puts the new record first.\<close>

definition savePost :: "storage \<Rightarrow> post \<Rightarrow> storage" where
  "savePost s p =
     (let existingPosts = stored_posts s
      in s\<lparr>local_posts := Some (p # existingPosts)\<rparr>)"

text \<open>
  \<open>handleNewPost\<close>, with the time of the call (\<^verbatim>\<open>Date.now()\<close> and its ISO text) and
  the four fields of the form, each possibly missing.
\<close>

definition handleNewPost ::
  "nat \<Rightarrow> string \<Rightarrow> string option \<Rightarrow> string option \<Rightarrow> string option \<Rightarrow> string option
     \<Rightarrow> storage \<Rightarrow> storage \<times> message" where
  "handleNewPost now isoTime ptitle category content tagsInput s =
     (if or_empty ptitle = [] \<or> length (or_empty ptitle) < 10
      then (s, (''Title must be at least 10 characters'', ''error''))
      else if or_empty category = []
      then (s, (''Please select a category'', ''error''))
      else if or_empty content = [] \<or> length (or_empty content) < 50
      then (s, (''Content must be at least 50 characters'', ''error''))
      else (case stored_user s of
              None \<Rightarrow> (s, (''Please login to create a post'', ''error''))
            | Some u \<Rightarrow>
                (let tags = (if or_empty tagsInput \<noteq> []
                             then filter (\<lambda>t. prefix ''#'' t) (split_spaces (or_empty tagsInput))
                             else []);
                     p = \<lparr> post_id = ''post_'' @ digits_of now,
                           post_authorId = user_id u,
                           post_authorName = username u,
                           post_title = or_empty ptitle,
                           post_category = or_empty category,
                           post_content = or_empty content,
                           post_tags = tags,
                           post_views = 0, post_replies = 0, post_likes = 0,
                           post_createdAt = isoTime \<rparr>;
                     s1 = savePost s p;
                     u1 = u\<lparr>posts := Some (int_or_zero (posts u) + 1),
                            points := Some (int_or_zero (points u) + 15)\<rparr>
                 in (store_user s1 u1, (''Post created successfully! +15 points'', ''success'')))))"

definition saveReview :: "string \<Rightarrow> storage \<Rightarrow> review \<Rightarrow> storage" where
  "saveReview gameSlug s r =
     (let existingReviews = stored_reviews gameSlug s
      in s\<lparr>local_reviews := (local_reviews s)(gameSlug \<mapsto> r # existingReviews)\<rparr>)"

text \<open>
  \<open>handleReviewSubmit\<close>. The rating is the text of the form field; \<^verbatim>\<open>rating < 1\<close> and
  \<^verbatim>\<open>rating > 5\<close> compare its numeric value, which the host computes: \<open>toNumber\<close> is
  that conversion, \<open>None\<close> for \<^verbatim>\<open>NaN\<close>, and every comparison with \<^verbatim>\<open>NaN\<close> is false.
\<close>

definition handleReviewSubmit ::
  "(string \<Rightarrow> rat option) \<Rightarrow> nat \<Rightarrow> string \<Rightarrow> string \<Rightarrow> string option \<Rightarrow> string option
     \<Rightarrow> storage \<Rightarrow> storage \<times> message" where
  "handleReviewSubmit toNumber now isoTime gameSlug ratingText reviewText s =
     (if or_empty ratingText = []
         \<or> (case toNumber (or_empty ratingText) of None \<Rightarrow> False | Some r \<Rightarrow> r < 1)
         \<or> (case toNumber (or_empty ratingText) of None \<Rightarrow> False | Some r \<Rightarrow> 5 < r)
      then (s, (''Please select a rating'', ''error''))
      else if or_empty reviewText = [] \<or> length (or_empty reviewText) < 20
      then (s, (''Review must be at least 20 characters'', ''error''))
      else (case stored_user s of
              None \<Rightarrow> (s, (''Please login to submit a review'', ''error''))
            | Some u \<Rightarrow>
                (let r = \<lparr> review_id = ''review_'' @ digits_of now,
                           review_gameSlug = gameSlug,
                           review_userId = user_id u,
                           review_username = username u,
                           review_rating = parseInt (or_empty ratingText) 0,
                           review_text = or_empty reviewText,
                           review_helpful = 0,
                           review_createdAt = isoTime \<rparr>;
                     s1 = saveReview gameSlug s r;
                     u1 = u\<lparr>comments := Some (int_or_zero (comments u) + 1),
                            points := Some (int_or_zero (points u) + 10)\<rparr>
                 in (store_user s1 u1, (''Review submitted successfully! +10 points'', ''success'')))))"

section \<open>Properties to state, and example data\<close>


text \<open>The page of a view state lies in \<open>[1, max(1, ceil(n / pageSize))]\<close>.\<close>

definition page_in_range :: "number \<Rightarrow> nat \<Rightarrow> nat \<Rightarrow> bool" where
  "page_in_range p n pageSize =
     (case p of NaN \<Rightarrow> False | Num i \<Rightarrow> 1 \<le> i \<and> i \<le> int (totalPages n pageSize))"

text \<open>An event whose page number, if it carries one, is numeric.\<close>

definition numeric_click :: "event \<Rightarrow> bool" where
  "numeric_click e =
     (case e of PageClick p \<Rightarrow> parseInt (or_default p ''1'') 10 \<noteq> NaN | _ \<Rightarrow> True)"

text \<open>
  The haystack as the specification words it: the concatenation of title, summary,
  author, categories and mechanisms, case-folded.
\<close>

definition concatenated_haystack :: "game \<Rightarrow> string" where
  "concatenated_haystack g =
     toLowerCase (concat
       ([title g, or_empty (summary g), or_empty (author g)]
        @ or_nil (game_categories g) @ or_nil (game_mechanisms g)))"

text \<open>\<^verbatim>\<open>state.filters[facet]\<close> for the four facets.\<close>

definition selected :: "filter_sets \<Rightarrow> string \<Rightarrow> string list" where
  "selected f facet =
     (if facet = ''categories'' then categories f
      else if facet = ''mechanisms'' then mechanisms f
      else if facet = ''difficulty'' then difficulty f
      else if facet = ''language'' then language f
      else [])"

text \<open>Two catalog items, an older one that trends and a newer, rated one.\<close>

definition sudoku :: game where
  "sudoku =
     \<lparr> slug = ''sudoku'', title = ''Sudoku'', summary = Some ''Grid'', author = None,
       game_categories = Some [''logic''], game_mechanisms = None,
       game_difficulty = Some ''hard'', languages = Some [''en''],
       created_at = 1000, pv7_norm = Some 1, guide_clicks7_norm = None, recency = None,
       rating = None \<rparr>"

definition ludo :: game where
  "ludo =
     \<lparr> slug = ''ludo'', title = ''Ludo'', summary = Some ''Dice race'', author = Some ''Ann'',
       game_categories = Some [''family''], game_mechanisms = Some [''dice''],
       game_difficulty = Some ''easy'', languages = Some [''en'', ''fr''],
       created_at = 2000, pv7_norm = None, guide_clicks7_norm = None, recency = None,
       rating = Some 4 \<rparr>"

definition no_filters :: filter_sets where
  "no_filters = \<lparr> categories = [], mechanisms = [], difficulty = [], language = [] \<rparr>"

definition sorted_by :: "string \<Rightarrow> view_state" where
  "sorted_by key = \<lparr> search = [], sort_name = key, page = Num 1, filters = no_filters \<rparr>"

text \<open>The default view with the one category \<^verbatim>\<open>logic\<close> selected.\<close>

definition logic_only :: view_state where
  "logic_only =
     \<lparr> search = [], sort_name = ''trending'', page = Num 1,
       filters = no_filters\<lparr>categories := [''logic'']\<rparr> \<rparr>"



text \<open>A numeric conversion for the examples: decimal integers, anything else \<^verbatim>\<open>NaN\<close>.\<close>

definition decimal_number :: "string \<Rightarrow> rat option" where
  "decimal_number s = (case parseInt s 10 of NaN \<Rightarrow> None | Num n \<Rightarrow> Some (of_int n))"

text \<open>A signed-in user with one earlier post and one earlier review of \<^verbatim>\<open>ludo\<close>.\<close>

definition ann :: user where
  "ann = \<lparr> user_id = ''user_1'', username = ''ann'', points = Some 5, posts = None,
           comments = None \<rparr>"

definition first_post :: post where
  "first_post =
     \<lparr> post_id = ''post_1'', post_authorId = ''user_1'', post_authorName = ''ann'',
       post_title = ''Opening moves'', post_category = ''strategy'',
       post_content = ''Which opening do you like best, and why is it your favourite?'',
       post_tags = [], post_views = 0, post_replies = 0, post_likes = 0,
       post_createdAt = ''2025-01-01T00:00:00.000Z'' \<rparr>"

definition first_review :: review where
  "first_review =
     \<lparr> review_id = ''review_1'', review_gameSlug = ''ludo'', review_userId = ''user_1'',
       review_username = ''ann'', review_rating = Num 5,
       review_text = ''A classic for the family.'', review_helpful = 0,
       review_createdAt = ''2025-01-01T00:00:00.000Z'' \<rparr>"

definition browser :: storage where
  "browser =
     \<lparr> local_user = Some ann, session_user = None, local_posts = Some [first_post],
       local_reviews = [''ludo'' \<mapsto> [first_review]] \<rparr>"

section \<open>Facts about the host functions\<close>

lemma str_includes_sublist: "str_includes h q \<longleftrightarrow> sublist q h"
  by (induction h) (auto simp: sublist_Cons_right)








lemma parseInt_1: "parseInt ''1'' 10 = Num 1"
  by code_simp


lemma mset_insert_by: "mset (insert_by cmp x ys) = add_mset x (mset ys)"
  by (induction ys) auto

lemma mset_sort_with: "mset (sort_with cmp xs) = mset xs"
  by (induction xs) (simp_all add: sort_with_def mset_insert_by)

lemma length_sort_with: "length (sort_with cmp xs) = length xs"
  using mset_sort_with [of cmp xs] by (metis size_mset)







lemma sorter_for_own:
  "sorter_for ''trending'' = Some Trending" "sorter_for ''new'' = Some New"
  "sorter_for ''most-rated'' = Some MostRated" "sorter_for ''alpha'' = Some Alpha"
  by (simp_all add: sorter_for_def sorters_def)



text \<open>An inherited property is found, so there is no fallback.\<close>

lemma inherited_key_no_fallback: "sorter_for ''constructor'' = None"
  by (simp add: sorter_for_def sorters_def object_prototype_keys_def)




section \<open>Facts about the scripts\<close>

lemma list_ex_opt_includes:
  "list_ex (opt_includes xs) sel \<longleftrightarrow> (\<exists>v \<in> set sel. v \<in> set (or_nil xs))"
  by (cases xs) (auto simp: opt_includes_def or_nil_def list_ex_iff)

lemma difficulty_includes:
  "(case d of None \<Rightarrow> False | Some x \<Rightarrow> x \<in> set sel) \<longleftrightarrow> (\<exists>v \<in> set sel. v \<in> set_option d)"
  by (cases d) auto

lemma matchesFilters_iff:
  "matchesFilters g f \<longleftrightarrow>
     (categories f \<noteq> [] \<longrightarrow> (\<exists>v \<in> set (categories f). v \<in> set (or_nil (game_categories g)))) \<and>
     (mechanisms f \<noteq> [] \<longrightarrow> (\<exists>v \<in> set (mechanisms f). v \<in> set (or_nil (game_mechanisms g)))) \<and>
     (difficulty f \<noteq> [] \<longrightarrow> (\<exists>v \<in> set (difficulty f). v \<in> set_option (game_difficulty g))) \<and>
     (language f \<noteq> [] \<longrightarrow> (\<exists>v \<in> set (language f). v \<in> set (or_nil (languages g))))"
  unfolding matchesFilters_def difficulty_includes list_ex_opt_includes by simp

lemma matchesFilters_no_filters: "matchesFilters g no_filters"
  by (simp add: matchesFilters_def no_filters_def)

text \<open>The first value selected in a facet can only exclude items.\<close>

lemma matchesFilters_first_value:
  assumes "facet \<in> set facet_names" "selected f facet = []"
    and "matchesFilters g (facetChange f facet v True)"
  shows "matchesFilters g f"
proof -
  from assms(1) consider "facet = ''categories''" | "facet = ''mechanisms''"
    | "facet = ''difficulty''" | "facet = ''language''"
    by (auto simp: facet_names_def)
  then show ?thesis
  proof cases
    case 1
    with assms(2) have "categories f = []" by (simp add: selected_def)
    with assms(3) 1 show ?thesis by (simp add: matchesFilters_iff facetChange_def)
  next
    case 2
    with assms(2) have "mechanisms f = []" by (simp add: selected_def)
    with assms(3) 2 show ?thesis by (simp add: matchesFilters_iff facetChange_def)
  next
    case 3
    with assms(2) have "difficulty f = []" by (simp add: selected_def)
    with assms(3) 3 show ?thesis by (simp add: matchesFilters_iff facetChange_def)
  next
    case 4
    with assms(2) have "language f = []" by (simp add: selected_def)
    with assms(3) 4 show ?thesis by (simp add: matchesFilters_iff facetChange_def)
  qed
qed

lemma length_filter_mono:
  "(\<And>x. P x \<Longrightarrow> Q x) \<Longrightarrow> length (filter P xs) \<le> length (filter Q xs)"
  by (induction xs) auto

lemma digits_now: "digits_of 1700000000000 = ''1700000000000''"
  by (simp add: digits_of.simps)

lemma browser_user: "stored_user browser = Some ann" "local_user browser = Some ann"
  by (simp_all add: stored_user_def browser_def)

lemma browser_posts: "stored_posts browser = [first_post]"
  by (simp add: stored_posts_def browser_def)

lemma browser_reviews: "stored_reviews ''ludo'' browser = [first_review]"
  by (simp add: stored_reviews_def browser_def)

lemma stored_posts_after:
  "stored_posts (store_user (savePost s p) u) = p # stored_posts s"
  by (simp add: store_user_def savePost_def stored_posts_def)

lemma stored_reviews_after:
  "stored_reviews g (store_user (saveReview g s r) u) = r # stored_reviews g s"
  by (simp add: store_user_def saveReview_def stored_reviews_def)

subsection \<open>The page of the view state\<close>

text \<open>
  The page that \<open>parseQuery\<close> returns is \<^verbatim>\<open>NaN\<close> or at least 1, and 1 when the address
  has no \<^verbatim>\<open>page\<close> parameter. From a page that is a number from 1 on, \<open>render\<close> leaves
  the page within the pages there are; so does every event but a click on a link whose
  \<^verbatim>\<open>page\<close> parameter is not numeric, and so every run of such events from an address
  whose page is numeric.
\<close>

lemma max_1_cases: "max_1 x = NaN \<or> (\<exists>n. max_1 x = Num n \<and> 1 \<le> n)"
  by (cases x) auto

lemma max_1_Num: "x \<noteq> NaN \<Longrightarrow> \<exists>n. max_1 x = Num n \<and> 1 \<le> n"
  by (cases x) auto

lemma parseQuery_page_cases:
  "page (parseQuery q) = NaN \<or> (\<exists>n. page (parseQuery q) = Num n \<and> 1 \<le> n)"
  by (simp add: parseQuery_def Let_def max_1_cases)

lemma parseQuery_page_absent:
  "get_param (URLSearchParams q) ''page'' = None \<Longrightarrow> page (parseQuery q) = Num 1"
  by (simp add: parseQuery_def Let_def or_default_def parseInt_1)

lemma render_page_in_range:
  assumes "page st = Num p" "1 \<le> p" "render lc games pageSize st = Some v"
  shows "page_in_range (page (state v)) (total_count v) pageSize
         \<and> total_count v = length (filtered_games games st)"
proof -
  from assms(3) obtain s where s: "sorter_for (sort_name st) = Some s"
    by (auto simp: render_def sorted_games_def split: option.splits)
  have t: "1 \<le> totalPages n pageSize" for n
    by (simp add: totalPages_def)
  from assms(3) s have v: "page (state v) = Num (min p (int (totalPages (total_count v) pageSize)))"
    and n: "total_count v = length (filtered_games games st)"
    using assms(1) by (auto simp: render_def sorted_games_def Let_def length_sort_with)
  from v assms(2) t [of "total_count v"]
  have "page_in_range (page (state v)) (total_count v) pageSize"
    by (simp add: page_in_range_def)
  with n show ?thesis by simp
qed

lemma handle_page_in_range:
  assumes "handle lc games pageSize v e = Some v'"
    and "(\<exists>t. e = SearchInput t) \<or> (\<exists>k. e = SortChange k)
         \<or> (\<exists>f x c. e = FacetChange f x c \<and> f \<in> set facet_names)"
  shows "page_in_range (page (state v')) (total_count v') pageSize"
proof -
  from assms obtain st where r: "render lc games pageSize st = Some v'" and p: "page st = Num 1"
    by (auto simp: handle_def)
  have "(1::int) \<le> 1" by simp
  from render_page_in_range [OF p this r] show ?thesis by (rule conjunct1)
qed

lemma handle_page_click_in_range:
  assumes "handle lc games pageSize v (PageClick p) = Some v'"
    and "parseInt (or_default p ''1'') 10 \<noteq> NaN"
  shows "page_in_range (page (state v')) (total_count v') pageSize"
proof -
  from max_1_Num [OF assms(2)] obtain n
    where n: "max_1 (parseInt (or_default p ''1'') 10) = Num n" "1 \<le> n"
    by blast
  from assms(1) have "render lc games pageSize ((state v)\<lparr>page := Num n\<rparr>) = Some v'"
    by (simp add: handle_def n)
  moreover have "page ((state v)\<lparr>page := Num n\<rparr>) = Num n" by simp
  ultimately show ?thesis using render_page_in_range n(2) by blast
qed

lemma handle_keeps_page_in_range:
  assumes "handle lc games pageSize v e = Some v'" and "numeric_click e"
    and "page_in_range (page (state v)) (total_count v) pageSize"
  shows "page_in_range (page (state v')) (total_count v') pageSize"
proof (cases e)
  case (SearchInput t)
  with assms(1) show ?thesis by (blast intro: handle_page_in_range)
next
  case (SortChange k)
  with assms(1) show ?thesis by (blast intro: handle_page_in_range)
next
  case (FacetChange f x c)
  show ?thesis
  proof (cases "f \<in> set facet_names")
    case True
    with FacetChange assms(1) show ?thesis by (blast intro: handle_page_in_range)
  next
    case False
    with FacetChange assms(1) have "v' = v"
      by (simp add: handle_def split: if_splits)
    with assms(3) show ?thesis by simp
  qed
next
  case (PageClick p)
  with assms(2) have "parseInt (or_default p ''1'') 10 \<noteq> NaN"
    by (simp add: numeric_click_def)
  with PageClick assms(1) show ?thesis by (blast intro: handle_page_click_in_range)
qed

lemma run_keeps_page_in_range:
  assumes "run lc games pageSize (Some v) es = Some v'" and "list_all numeric_click es"
    and "page_in_range (page (state v)) (total_count v) pageSize"
  shows "page_in_range (page (state v')) (total_count v') pageSize"
  using assms
proof (induction es arbitrary: v)
  case Nil
  then show ?case by simp
next
  case (Cons e es)
  from Cons.prems(1) obtain w where w: "handle lc games pageSize v e = Some w"
    and r: "run lc games pageSize (Some w) es = Some v'"
    by (cases "handle lc games pageSize v e") simp_all
  from Cons.prems(2) have n: "numeric_click e" and ns: "list_all numeric_click es"
    by simp_all
  from handle_keeps_page_in_range [OF w n Cons.prems(3)]
  have "page_in_range (page (state w)) (total_count w) pageSize" .
  from Cons.IH [OF r ns this] show ?case .
qed

lemma initialise_page_in_range:
  assumes "initialiseGames lc games pageSize location = Some v"
    and "page (parseQuery location) \<noteq> NaN"
  shows "page_in_range (page (state v)) (total_count v) pageSize"
proof -
  from assms(2) parseQuery_page_cases [of location]
  obtain n where n: "page (parseQuery location) = Num n" "1 \<le> n"
    by blast
  from assms(1) have "render lc games pageSize (parseQuery location) = Some v"
    by (simp add: initialiseGames_def)
  from render_page_in_range [OF n this] show ?thesis by (rule conjunct1)
qed

lemma parse_page_abc:
  "parseQuery ''?page=abc''
     = \<lparr> search = [], sort_name = ''trending'', page = NaN, filters = no_filters \<rparr>"
  by code_simp

section \<open>The claims\<close>

subsection \<open>C1: the comparator that the sort key selects\<close>




subsection \<open>C2: the page that \<open>parseQuery\<close> returns\<close>




subsection \<open>C3: the page after a render\<close>

text \<open>
  C3 says that after the initial render the page lies in
  \<open>[1, max(1, ceil(filteredCount / pageSize))]\<close>. For the address \<^verbatim>\<open>?page=abc\<close> it does
  not, whatever the catalog and the page size: \<^verbatim>\<open>parseInt\<close> gives \<^verbatim>\<open>NaN\<close>, which
  \<^verbatim>\<open>Math.max(1, NaN)\<close> and \<^verbatim>\<open>Math.min(NaN, totalPages)\<close> pass on: the page stays
  \<^verbatim>\<open>NaN\<close>, and the grid shows no item.
\<close>

theorem initial_render_page_NaN:
  "\<exists>v. initialiseGames lc games pageSize ''?page=abc'' = Some v \<and> page (state v) = NaN
      \<and> page_items v = [] \<and> \<not> page_in_range (page (state v)) (total_count v) pageSize"
  by (simp add: initialiseGames_def parse_page_abc render_def sorted_games_def sorter_for_own
      slice_def relative_index_def page_in_range_def Let_def)

subsection \<open>C4: facet filters\<close>

text \<open>
  C4. \<open>matchesFilters\<close> holds exactly when, for every facet with a selection that is not
  empty, the item carries one of the selected values: any of them within a facet, and
  every such facet. A facet with no selection asks nothing, and an absent field of the
  item counts as the empty set.
\<close>

theorem matchesFilters_facets:
  "matchesFilters g f \<longleftrightarrow>
     (categories f \<noteq> [] \<longrightarrow> (\<exists>v \<in> set (categories f). v \<in> set (or_nil (game_categories g)))) \<and>
     (mechanisms f \<noteq> [] \<longrightarrow> (\<exists>v \<in> set (mechanisms f). v \<in> set (or_nil (game_mechanisms g)))) \<and>
     (difficulty f \<noteq> [] \<longrightarrow> (\<exists>v \<in> set (difficulty f). v \<in> set_option (game_difficulty g))) \<and>
     (language f \<noteq> [] \<longrightarrow> (\<exists>v \<in> set (language f). v \<in> set (or_nil (languages g))))"
  by (rule matchesFilters_iff)

text \<open>An item in one of two selected categories passes; one with no mechanisms fails a
  selection of mechanisms.\<close>

theorem matchesFilters_facets_witness:
  "categories (no_filters\<lparr>categories := [''logic'', ''family'']\<rparr>) \<noteq> []
   \<and> matchesFilters sudoku (no_filters\<lparr>categories := [''logic'', ''family'']\<rparr>)
   \<and> mechanisms (no_filters\<lparr>mechanisms := [''dice'']\<rparr>) \<noteq> []
   \<and> \<not> matchesFilters sudoku (no_filters\<lparr>mechanisms := [''dice'']\<rparr>)"
  using matchesFilters_facets [of sudoku "no_filters\<lparr>categories := [''logic'', ''family'']\<rparr>"]
    matchesFilters_facets [of sudoku "no_filters\<lparr>mechanisms := [''dice'']\<rparr>"]
  by (simp add: no_filters_def sudoku_def or_nil_def)

subsection \<open>C5: facet selections and the size of the result\<close>

text \<open>
  C5, as stated, fails in its second half: a second value in a facet that has one is an
  alternative within the facet, and the result can grow. With \<^verbatim>\<open>logic\<close> selected one item
  of the two passes; with \<^verbatim>\<open>family\<close> ticked as well, both do.
\<close>

theorem second_facet_value_widens:
  "length (filtered_games [sudoku, ludo] logic_only) = 1 \<and>
   length (filtered_games [sudoku, ludo]
     (logic_only\<lparr>filters := facetChange (filters logic_only) ''categories'' ''family'' True\<rparr>)) = 2"
  by code_simp

text \<open>
  C5, amended. With no value selected in any facet the filtered items are exactly those
  that match the search text, and the whole catalog when the search text is empty. Ticking
  a value in a facet that has no selected value never adds an item to the result, so its
  size does not grow.
\<close>

theorem first_facet_value_narrows:
  "(filters st = no_filters \<longrightarrow>
      filtered_games games st = filter (\<lambda>g. matchesSearch g (search st)) games) \<and>
   (filters st = no_filters \<and> search st = [] \<longrightarrow> filtered_games games st = games) \<and>
   (facet \<in> set facet_names \<and> selected (filters st) facet = [] \<longrightarrow>
      set (filtered_games games (st\<lparr>filters := facetChange (filters st) facet v True\<rparr>))
        \<subseteq> set (filtered_games games st) \<and>
      length (filtered_games games (st\<lparr>filters := facetChange (filters st) facet v True\<rparr>))
        \<le> length (filtered_games games st))"
proof (intro conjI impI)
  assume "filters st = no_filters"
  then show "filtered_games games st = filter (\<lambda>g. matchesSearch g (search st)) games"
    by (simp add: filtered_games_def matchesFilters_no_filters)
next
  assume "filters st = no_filters \<and> search st = []"
  then show "filtered_games games st = games"
    by (simp add: filtered_games_def matchesFilters_no_filters matchesSearch_def)
next
  assume a: "facet \<in> set facet_names \<and> selected (filters st) facet = []"
  then have m: "\<And>g. matchesFilters g (facetChange (filters st) facet v True)
                  \<Longrightarrow> matchesFilters g (filters st)"
    by (blast intro: matchesFilters_first_value)
  from m show "set (filtered_games games (st\<lparr>filters := facetChange (filters st) facet v True\<rparr>))
        \<subseteq> set (filtered_games games st)"
    by (auto simp: filtered_games_def)
  from m show "length (filtered_games games (st\<lparr>filters := facetChange (filters st) facet v True\<rparr>))
        \<le> length (filtered_games games st)"
    unfolding filtered_games_def filter_filter
    by (intro length_filter_mono) simp
qed

text \<open>The default view of the two example items, and \<^verbatim>\<open>logic\<close> ticked in it.\<close>

theorem first_facet_value_narrows_witness:
  "filters (sorted_by ''trending'') = no_filters
   \<and> search (sorted_by ''trending'') = []
   \<and> filtered_games [sudoku, ludo] (sorted_by ''trending'') = [sudoku, ludo]
   \<and> ''categories'' \<in> set facet_names
   \<and> selected (filters (sorted_by ''trending'')) ''categories'' = []
   \<and> length (filtered_games [sudoku, ludo]
        ((sorted_by ''trending'')\<lparr>filters :=
           facetChange (filters (sorted_by ''trending'')) ''categories'' ''logic'' True\<rparr>))
       \<le> length (filtered_games [sudoku, ludo] (sorted_by ''trending''))"
proof -
  have f: "filters (sorted_by ''trending'') = no_filters"
    and s: "search (sorted_by ''trending'') = []"
    by (simp_all add: sorted_by_def)
  have c: "''categories'' \<in> set facet_names"
    and e: "selected (filters (sorted_by ''trending'')) ''categories'' = []"
    by (simp_all add: facet_names_def selected_def sorted_by_def no_filters_def)
  note t = first_facet_value_narrows
    [of "sorted_by ''trending''" "[sudoku, ludo]" "''categories''" "''logic''"]
  from t f s have all: "filtered_games [sudoku, ludo] (sorted_by ''trending'') = [sudoku, ludo]"
    by blast
  from t c e have le: "length (filtered_games [sudoku, ludo]
        ((sorted_by ''trending'')\<lparr>filters :=
           facetChange (filters (sorted_by ''trending'')) ''categories'' ''logic'' True\<rparr>))
       \<le> length (filtered_games [sudoku, ludo] (sorted_by ''trending''))"
    by blast
  from f s all c e le show ?thesis by (intro conjI)
qed

subsection \<open>C6: the search predicate\<close>

text \<open>
  C6, as stated, fails when the haystack is the plain concatenation of the fields: the
  script joins them with a space. The item titled \<^verbatim>\<open>Sudoku\<close> with the summary
  \<^verbatim>\<open>Grid\<close> has \<^verbatim>\<open>ug\<close> in the concatenation and does not match the query \<^verbatim>\<open>ug\<close>.
\<close>

theorem matchesSearch_not_concatenation:
  "sublist (toLowerCase ''ug'') (concatenated_haystack sudoku) \<and> \<not> matchesSearch sudoku ''ug''"
  by code_simp

text \<open>
  C6, amended. \<open>matchesSearch\<close> holds of every item for the empty query; for any other
  query it holds exactly when the lower-cased query occurs in the lower-cased text of
  title, summary, author, categories and mechanisms joined by single spaces (an absent
  summary or author being the empty string).
\<close>

theorem matchesSearch_joined_substring:
  "matchesSearch g [] \<and>
   (q \<noteq> [] \<longrightarrow>
      (matchesSearch g q \<longleftrightarrow>
         sublist (toLowerCase q)
           (toLowerCase (join '' '' ([title g, or_empty (summary g), or_empty (author g)]
              @ or_nil (game_categories g) @ or_nil (game_mechanisms g))))))"
  by (simp add: matchesSearch_def haystack_def str_includes_sublist)

text \<open>A query that spans the space between title and summary.\<close>

theorem matchesSearch_joined_substring_witness:
  "''U G'' \<noteq> [] \<and> matchesSearch sudoku ''U G''
   \<and> sublist (toLowerCase ''U G'')
        (toLowerCase (join '' '' ([title sudoku, or_empty (summary sudoku), or_empty (author sudoku)]
           @ or_nil (game_categories sudoku) @ or_nil (game_mechanisms sudoku))))"
proof -
  have m: "matchesSearch sudoku ''U G''" by code_simp
  with matchesSearch_joined_substring [of sudoku "''U G''"] show ?thesis by simp
qed

subsection \<open>C7: the address round trip\<close>

text \<open>
  C7. The view state with search \<^verbatim>\<open>puzzle\<close>, sort \<^verbatim>\<open>newest\<close>, the one category
  \<^verbatim>\<open>logic\<close> and page 2 is written to the address as
  \<^verbatim>\<open>?search=puzzle&sort=newest&category=logic&page=2\<close>, and parsing that gives the same
  view state back.
\<close>

theorem query_round_trip:
  "parseQuery (updateQuery \<lparr> search = ''puzzle'', sort_name = ''newest'', page = Num 2,
       filters = \<lparr> categories = [''logic''], mechanisms = [], difficulty = [], language = [] \<rparr> \<rparr>)
   = \<lparr> search = ''puzzle'', sort_name = ''newest'', page = Num 2,
       filters = \<lparr> categories = [''logic''], mechanisms = [], difficulty = [], language = [] \<rparr> \<rparr>"
  by code_simp

subsection \<open>C8: where a new post or review is stored\<close>

text \<open>
  C8, as stated, fails: \<^verbatim>\<open>unshift\<close> puts the new record first, not last. After a valid
  post and a valid review in a browser that holds one of each, the new record comes
  before the earlier one.
\<close>

theorem new_record_not_last:
  "map post_id (stored_posts (fst (handleNewPost 1700000000000 ''2025-02-02T00:00:00.000Z''
      (Some ''Tips for Ludo'') (Some ''strategy'')
      (Some ''Roll early, block late, and keep two tokens together.'') (Some ''#ludo  tips #dice'')
      browser)))
   = [''post_1700000000000'', ''post_1'']
   \<and> map review_id (stored_reviews ''ludo'' (fst (handleReviewSubmit decimal_number 1700000000000
      ''2025-02-02T00:00:00.000Z'' ''ludo'' (Some ''4'') (Some ''Quick to learn, fun to replay.'')
      browser)))
   = [''review_1700000000000'', ''review_1'']"
proof -
  have d: "decimal_number ''4'' = Some 4" by code_simp
  have p: "map post_id (stored_posts (fst (handleNewPost 1700000000000 ''2025-02-02T00:00:00.000Z''
      (Some ''Tips for Ludo'') (Some ''strategy'')
      (Some ''Roll early, block late, and keep two tokens together.'') (Some ''#ludo  tips #dice'')
      browser)))
   = [''post_1700000000000'', ''post_1'']"
    by (simp add: handleNewPost_def or_empty_def browser_user browser_posts stored_posts_after
        digits_now first_post_def is_space_def)
  have r: "map review_id (stored_reviews ''ludo'' (fst (handleReviewSubmit decimal_number
      1700000000000 ''2025-02-02T00:00:00.000Z'' ''ludo'' (Some ''4'')
      (Some ''Quick to learn, fun to replay.'') browser)))
   = [''review_1700000000000'', ''review_1'']"
    using d
    by (simp add: handleReviewSubmit_def or_empty_def browser_user browser_reviews
        stored_reviews_after digits_now first_review_def)
  from p r show ?thesis by (rule conjI)
qed

text \<open>
  C8, amended. When a forum post passes validation (a title of 10 characters or more, a
  category, a content of 50 characters or more, a signed-in user), the stored list of
  posts is the new record, with the identifier and the time stamp made from the clock,
  followed by the list stored before. The same holds for a review that passes validation
  (a rating whose number is not below 1 or above 5, a text of 20 characters or more, a
  signed-in user) and the list stored for its game.
\<close>

theorem record_stored_first:
  "(10 \<le> length (or_empty ptitle) \<and> or_empty category \<noteq> [] \<and> 50 \<le> length (or_empty content)
      \<and> stored_user s \<noteq> None \<longrightarrow>
      (\<exists>p. stored_posts (fst (handleNewPost now isoTime ptitle category content tagsInput s))
              = p # stored_posts s
           \<and> post_id p = ''post_'' @ digits_of now \<and> post_createdAt p = isoTime
           \<and> post_title p = or_empty ptitle \<and> post_content p = or_empty content)) \<and>
   (or_empty ratingText \<noteq> []
      \<and> (\<forall>r. toNumber (or_empty ratingText) = Some r \<longrightarrow> 1 \<le> r \<and> r \<le> 5)
      \<and> 20 \<le> length (or_empty reviewText) \<and> stored_user s \<noteq> None \<longrightarrow>
      (\<exists>r. stored_reviews gameSlug
               (fst (handleReviewSubmit toNumber now isoTime gameSlug ratingText reviewText s))
              = r # stored_reviews gameSlug s
           \<and> review_id r = ''review_'' @ digits_of now \<and> review_createdAt r = isoTime
           \<and> review_text r = or_empty reviewText))"
proof (intro conjI impI)
  assume "10 \<le> length (or_empty ptitle) \<and> or_empty category \<noteq> [] \<and> 50 \<le> length (or_empty content)
      \<and> stored_user s \<noteq> None"
  then show "\<exists>p. stored_posts (fst (handleNewPost now isoTime ptitle category content tagsInput s))
              = p # stored_posts s
           \<and> post_id p = ''post_'' @ digits_of now \<and> post_createdAt p = isoTime
           \<and> post_title p = or_empty ptitle \<and> post_content p = or_empty content"
    by (auto simp: handleNewPost_def stored_posts_after Let_def)
next
  assume a: "or_empty ratingText \<noteq> []
      \<and> (\<forall>r. toNumber (or_empty ratingText) = Some r \<longrightarrow> 1 \<le> r \<and> r \<le> 5)
      \<and> 20 \<le> length (or_empty reviewText) \<and> stored_user s \<noteq> None"
  then have "\<not> (case toNumber (or_empty ratingText) of None \<Rightarrow> False | Some r \<Rightarrow> r < 1)"
    "\<not> (case toNumber (or_empty ratingText) of None \<Rightarrow> False | Some r \<Rightarrow> 5 < r)"
    by (auto split: option.splits)
  with a show "\<exists>r. stored_reviews gameSlug
               (fst (handleReviewSubmit toNumber now isoTime gameSlug ratingText reviewText s))
              = r # stored_reviews gameSlug s
           \<and> review_id r = ''review_'' @ digits_of now \<and> review_createdAt r = isoTime
           \<and> review_text r = or_empty reviewText"
    by (auto simp: handleReviewSubmit_def stored_reviews_after Let_def)
qed

text \<open>A valid post and a valid review in the example browser.\<close>

theorem record_stored_first_witness:
  "10 \<le> length (or_empty (Some ''Tips for Ludo'')) \<and> or_empty (Some ''strategy'') \<noteq> []
   \<and> 50 \<le> length (or_empty (Some ''Roll early, block late, and keep two tokens together.''))
   \<and> stored_user browser \<noteq> None
   \<and> (\<exists>p. stored_posts (fst (handleNewPost 1700000000000 ''2025-02-02T00:00:00.000Z''
              (Some ''Tips for Ludo'') (Some ''strategy'')
              (Some ''Roll early, block late, and keep two tokens together.'') None browser))
            = p # stored_posts browser
          \<and> post_id p = ''post_'' @ digits_of 1700000000000)
   \<and> or_empty (Some ''4'') \<noteq> []
   \<and> decimal_number (or_empty (Some ''4'')) = Some 4
   \<and> 20 \<le> length (or_empty (Some ''Quick to learn, fun to replay.''))
   \<and> (\<exists>r. stored_reviews ''ludo'' (fst (handleReviewSubmit decimal_number 1700000000000
              ''2025-02-02T00:00:00.000Z'' ''ludo'' (Some ''4'')
              (Some ''Quick to learn, fun to replay.'') browser))
            = r # stored_reviews ''ludo'' browser
          \<and> review_id r = ''review_'' @ digits_of 1700000000000)"
proof -
  have d: "decimal_number (or_empty (Some ''4'')) = Some 4" by code_simp
  have h1: "10 \<le> length (or_empty (Some ''Tips for Ludo'')) \<and> or_empty (Some ''strategy'') \<noteq> []
     \<and> 50 \<le> length (or_empty (Some ''Roll early, block late, and keep two tokens together.''))
     \<and> stored_user browser \<noteq> None"
    by (simp add: or_empty_def browser_user)
  have h2: "or_empty (Some ''4'') \<noteq> []
     \<and> (\<forall>r. decimal_number (or_empty (Some ''4'')) = Some r \<longrightarrow> 1 \<le> r \<and> r \<le> 5)
     \<and> 20 \<le> length (or_empty (Some ''Quick to learn, fun to replay.''))
     \<and> stored_user browser \<noteq> None"
    by (simp add: d) (simp add: or_empty_def browser_user)
  note t = record_stored_first [of "Some ''Tips for Ludo''" "Some ''strategy''"
      "Some ''Roll early, block late, and keep two tokens together.''" browser
      1700000000000 "''2025-02-02T00:00:00.000Z''" None "Some ''4''" decimal_number
      "Some ''Quick to learn, fun to replay.''" "''ludo''"]
  from t h1 have p: "\<exists>p. stored_posts (fst (handleNewPost 1700000000000 ''2025-02-02T00:00:00.000Z''
              (Some ''Tips for Ludo'') (Some ''strategy'')
              (Some ''Roll early, block late, and keep two tokens together.'') None browser))
            = p # stored_posts browser
          \<and> post_id p = ''post_'' @ digits_of 1700000000000"
    by blast
  from t h2 have r: "\<exists>r. stored_reviews ''ludo'' (fst (handleReviewSubmit decimal_number
              1700000000000 ''2025-02-02T00:00:00.000Z'' ''ludo'' (Some ''4'')
              (Some ''Quick to learn, fun to replay.'') browser))
            = r # stored_reviews ''ludo'' browser
          \<and> review_id r = ''review_'' @ digits_of 1700000000000"
    by blast
  from h1 h2 d p r show ?thesis by blast
qed

subsection \<open>C9: the site search shows six results at most\<close>



subsection \<open>C10: a review that fails validation writes nothing\<close>

text \<open>
  C10. When the rating is missing or its number is below 1 or above 5, or the review text
  is missing or shorter than 20 characters, \<open>handleReviewSubmit\<close> shows an error message
  and returns the storage as it was: the list of reviews and the user record, with its
  points and comments counters, are unchanged, and no record is created.
\<close>

theorem review_rejected_unchanged:
  assumes "or_empty ratingText = []
           \<or> (\<exists>r. toNumber (or_empty ratingText) = Some r \<and> (r < 1 \<or> 5 < r))
           \<or> length (or_empty reviewText) < 20"
  shows "\<exists>msg. handleReviewSubmit toNumber now isoTime gameSlug ratingText reviewText s
           = (s, (msg, ''error''))"
  using assms by (auto simp: handleReviewSubmit_def split: option.splits)

text \<open>A rating of 7 with a text that is long enough.\<close>

theorem review_rejected_unchanged_witness:
  "(\<exists>r. decimal_number (or_empty (Some ''7'')) = Some r \<and> (r < 1 \<or> 5 < r))
   \<and> (\<exists>msg. handleReviewSubmit decimal_number 1700000000000 ''2025-02-02T00:00:00.000Z'' ''ludo''
          (Some ''7'') (Some ''Quick to learn, fun to replay.'') browser = (browser, (msg, ''error'')))"
proof -
  have "decimal_number (or_empty (Some ''7'')) = Some 7" by code_simp
  then have h: "\<exists>r. decimal_number (or_empty (Some ''7'')) = Some r \<and> (r < 1 \<or> 5 < r)" by simp
  then have "or_empty (Some ''7'') = []
      \<or> (\<exists>r. decimal_number (or_empty (Some ''7'')) = Some r \<and> (r < 1 \<or> 5 < r))
      \<or> length (or_empty (Some ''Quick to learn, fun to replay.'')) < 20"
    by blast
  from h review_rejected_unchanged [where toNumber = decimal_number and ratingText = "Some ''7''"
      and reviewText = "Some ''Quick to learn, fun to replay.''" and s = browser
      and now = 1700000000000 and isoTime = "''2025-02-02T00:00:00.000Z''"
      and gameSlug = "''ludo''", OF this]
  show ?thesis by blast
qed

end
